theory Spec2Isabelle
  imports Complex_Main
begin

section \<open>Single-precision arithmetic\<close>

text \<open>
  Every monetary field of \<^verbatim>\<open>bank.c\<close> is a C \<^verbatim>\<open>float\<close>. The model takes it to be
  IEEE-754 binary32 with round-to-nearest, ties-to-even, each operation rounded to
  single precision (\<^verbatim>\<open>FLT_EVAL_METHOD\<close> 0, as on x86-64 and AArch64).

  A value is a NaN, an infinity with its sign (\<open>True\<close> is negative), or a finite
  number given by its exact rational value. Two things are abstracted: all NaNs are one
  value, and zero carries no sign. The program compares zeros (where the sign is not
  seen) and divides only by the exchange rates and by market prices, which are never
  negative, so the sign of a zero never reaches a result.
\<close>

datatype float = FNaN | FInf bool | FNum rat

text \<open>\<open>flog2 a\<close> is \<open>\<lfloor>log\<^sub>2 a\<rfloor>\<close> for \<open>1 \<le> a\<close>; \<open>clog2 a\<close> is \<open>\<lceil>log\<^sub>2 a\<rceil>\<close> for \<open>1 \<le> a\<close>.\<close>

function flog2 :: "rat \<Rightarrow> int" where
  "flog2 a = (if a < 2 then 0 else 1 + flog2 (a / 2))"
  by pat_completeness auto
termination
proof (relation "measure (\<lambda>a. nat \<lfloor>a\<rfloor>)")
  show "wf (measure (\<lambda>a::rat. nat \<lfloor>a\<rfloor>))" by simp
next
  fix a :: rat
  assume "\<not> a < 2"
  then have "\<lfloor>a / 2\<rfloor> < \<lfloor>a\<rfloor>" and "0 < \<lfloor>a\<rfloor>"
    by (simp_all add: floor_less_iff, linarith+)
  then show "(a / 2, a) \<in> measure (\<lambda>a. nat \<lfloor>a\<rfloor>)" by simp
qed

function clog2 :: "rat \<Rightarrow> int" where
  "clog2 a = (if a \<le> 1 then 0 else 1 + clog2 (a / 2))"
  by pat_completeness auto
termination
proof (relation "measure (\<lambda>a. nat \<lceil>a\<rceil>)")
  show "wf (measure (\<lambda>a::rat. nat \<lceil>a\<rceil>))" by simp
next
  fix a :: rat
  assume "\<not> a \<le> 1"
  then have pos: "1 < \<lceil>a\<rceil>"
    by (simp add: less_ceiling_iff)
  then have "(2::rat) \<le> of_int \<lceil>a\<rceil>"
    by (metis add_le_cancel_left of_int_1 of_int_add of_int_le_iff one_add_one zless_imp_add1_zle)
  moreover have "a \<le> of_int \<lceil>a\<rceil>"
    by (rule le_of_int_ceiling)
  ultimately have "a / 2 \<le> of_int \<lceil>a\<rceil> - 1"
    by linarith
  then have "\<lceil>a / 2\<rceil> < \<lceil>a\<rceil>"
    by (simp add: ceiling_less_iff)
  with pos show "(a / 2, a) \<in> measure (\<lambda>a. nat \<lceil>a\<rceil>)" by simp
qed

declare flog2.simps [simp del] clog2.simps [simp del]

definition pow2 :: "int \<Rightarrow> rat" where
  "pow2 k = (if 0 \<le> k then 2 ^ nat k else 1 / 2 ^ nat (- k))"

text \<open>The binary exponent \<open>\<lfloor>log\<^sub>2 a\<rfloor>\<close> of a positive rational.\<close>

definition binexp :: "rat \<Rightarrow> int" where
  "binexp a = (if 1 \<le> a then flog2 a else - clog2 (1 / a))"

text \<open>Rounding a non-negative rational to the nearest integer, ties to even.\<close>

definition rne :: "rat \<Rightarrow> int" where
  "rne r = (let f = \<lfloor>r\<rfloor>; d = r - of_int f
            in if d < 1 / 2 then f else if 1 / 2 < d then f + 1
               else if even f then f else f + 1)"

text \<open>
  Rounding an exact result to binary32: 24 significant bits, the exponent not below
  \<open>-126\<close> (below it the spacing stays \<open>2\<^sup>-\<^sup>1\<^sup>4\<^sup>9\<close>: subnormals), overflow to infinity
  from \<open>2\<^sup>1\<^sup>2\<^sup>8\<close> on.
\<close>

definition round32 :: "rat \<Rightarrow> float" where
  "round32 x =
     (if x = 0 then FNum 0
      else let a = \<bar>x\<bar>;
               e = max (binexp a) (- 126);
               q = pow2 (e - 23);
               y = of_int (rne (a / q)) * q
           in if pow2 128 \<le> y then FInf (x < 0)
              else FNum (if x < 0 then - y else y))"

fun fneg :: "float \<Rightarrow> float" where
  "fneg FNaN = FNaN"
| "fneg (FInf s) = FInf (\<not> s)"
| "fneg (FNum x) = FNum (- x)"

fun fadd :: "float \<Rightarrow> float \<Rightarrow> float" where
  "fadd FNaN _ = FNaN"
| "fadd _ FNaN = FNaN"
| "fadd (FInf s) (FInf t) = (if s = t then FInf s else FNaN)"
| "fadd (FInf s) (FNum _) = FInf s"
| "fadd (FNum _) (FInf t) = FInf t"
| "fadd (FNum x) (FNum y) = round32 (x + y)"

definition fsub :: "float \<Rightarrow> float \<Rightarrow> float" where
  "fsub a b = fadd a (fneg b)"

fun fmul :: "float \<Rightarrow> float \<Rightarrow> float" where
  "fmul FNaN _ = FNaN"
| "fmul _ FNaN = FNaN"
| "fmul (FInf s) (FInf t) = FInf (s \<noteq> t)"
| "fmul (FInf s) (FNum y) = (if y = 0 then FNaN else FInf (s \<noteq> (y < 0)))"
| "fmul (FNum x) (FInf t) = (if x = 0 then FNaN else FInf ((x < 0) \<noteq> t))"
| "fmul (FNum x) (FNum y) = round32 (x * y)"

fun fdiv :: "float \<Rightarrow> float \<Rightarrow> float" where
  "fdiv FNaN _ = FNaN"
| "fdiv _ FNaN = FNaN"
| "fdiv (FInf s) (FInf t) = FNaN"
| "fdiv (FInf s) (FNum y) = FInf (s \<noteq> (y < 0))"
| "fdiv (FNum x) (FInf t) = FNum 0"
| "fdiv (FNum x) (FNum y) =
     (if y = 0 then (if x = 0 then FNaN else FInf (x < 0)) else round32 (x / y))"

text \<open>The comparisons of C: every comparison with a NaN is false (\<open>==\<close> included).\<close>

fun flt :: "float \<Rightarrow> float \<Rightarrow> bool" where
  "flt FNaN _ = False"
| "flt _ FNaN = False"
| "flt (FInf s) (FInf t) = (s \<and> \<not> t)"
| "flt (FInf s) (FNum _) = s"
| "flt (FNum _) (FInf t) = (\<not> t)"
| "flt (FNum x) (FNum y) = (x < y)"

fun feq :: "float \<Rightarrow> float \<Rightarrow> bool" where
  "feq FNaN _ = False"
| "feq _ FNaN = False"
| "feq (FInf s) (FInf t) = (s = t)"
| "feq (FNum x) (FNum y) = (x = y)"
| "feq _ _ = False"

definition fle :: "float \<Rightarrow> float \<Rightarrow> bool" where
  "fle a b = (flt a b \<or> feq a b)"

text \<open>A decimal literal with suffix \<^verbatim>\<open>f\<close>, and an \<^verbatim>\<open>int\<close> converted to \<^verbatim>\<open>float\<close>.\<close>

definition flit :: "rat \<Rightarrow> float" where
  "flit x = round32 x"

definition float_of_int :: "int \<Rightarrow> float" where
  "float_of_int k = round32 (of_int k)"


section \<open>Constants, enumerations and structures\<close>

definition MAX_ACCOUNTS :: int where "MAX_ACCOUNTS = 100"
definition MAX_NAME_LENGTH :: nat where "MAX_NAME_LENGTH = 50"
definition MIN_PIN :: int where "MIN_PIN = 1000"
definition MAX_PIN :: int where "MAX_PIN = 9999"
definition INTEREST_RATE :: float where "INTEREST_RATE = flit (5 / 100)"
definition STARTING_BALANCE :: float where "STARTING_BALANCE = flit 1000"
definition LOAN_AMOUNT :: float where "LOAN_AMOUNT = flit 500"
definition ASSET_PURCHASE_AMOUNT :: float where "ASSET_PURCHASE_AMOUNT = flit 100"

datatype ErrorCode =
    SUCCESS
  | ERROR_INSUFFICIENT_FUNDS
  | ERROR_INVALID_PIN
  | ERROR_ACCOUNT_EXISTS
  | ERROR_FILE_IO
  | ERROR_INVALID_INPUT

text \<open>
  \<^verbatim>\<open>MarketPrices\<close> and the anonymous \<^verbatim>\<open>assets\<close> member of an account are the same
  three floats, as are \<^verbatim>\<open>ExchangeRates\<close> and the \<^verbatim>\<open>currencies\<close> member; each pair
  shares one record.
\<close>

record MarketPrices =
  crypto :: float
  gold :: float
  silver :: float

record ExchangeRates =
  eur :: float
  gbp :: float
  inr :: float

record Account =
  name :: string
  pin :: int
  balance :: float
  loan :: float
  assets :: MarketPrices
  currencies :: ExchangeRates

text \<open>
  The data file holds what the two \<^verbatim>\<open>fwrite\<close> calls put there: the count (absent
  from a file cut off before it) and the account records that follow it.
\<close>

type_synonym datafile = "int option \<times> Account list"

text \<open>
  The global state: the array \<^verbatim>\<open>accounts\<close> (indexed by C \<^verbatim>\<open>int\<close>; the program uses
  the slots \<open>0 \<dots> 99\<close>), the two counters, the price and rate tables, and the content
  of \<^verbatim>\<open>accounts.dat\<close> (\<open>None\<close> while the file does not exist).
\<close>

record state =
  accounts :: "int \<Rightarrow> Account"
  accountCount :: int
  currentUserIndex :: int
  marketPrices :: MarketPrices
  exchangeRates :: ExchangeRates
  dataFile :: "datafile option"

definition zeroAccount :: Account where
  "zeroAccount =
     \<lparr>name = [], pin = 0, balance = FNum 0, loan = FNum 0,
      assets = \<lparr>crypto = FNum 0, gold = FNum 0, silver = FNum 0\<rparr>,
      currencies = \<lparr>eur = FNum 0, gbp = FNum 0, inr = FNum 0\<rparr>\<rparr>"

text \<open>The static initialisers, before any file has been written.\<close>

definition initState :: state where
  "initState =
     \<lparr>accounts = (\<lambda>_. zeroAccount), accountCount = 0, currentUserIndex = - 1,
      marketPrices = \<lparr>crypto = flit 150, gold = flit 60, silver = flit 25\<rparr>,
      exchangeRates = \<lparr>eur = flit (110 / 100), gbp = flit (127 / 100),
                       inr = flit (12 / 1000)\<rparr>,
      dataFile = None\<rparr>"

text \<open>What the void operations report on the terminal.\<close>

datatype report =
    Success
  | Cancelled
  | InfoInsufficient
  | Error ErrorCode
  | NoAction


section \<open>Utility functions\<close>

definition isalpha :: "char \<Rightarrow> bool" where
  "isalpha c = (let n = (of_char c :: nat)
                in (65 \<le> n \<and> n \<le> 90) \<or> (97 \<le> n \<and> n \<le> 122))"

definition isAlphaString :: "string \<Rightarrow> bool" where
  "isAlphaString str = (str \<noteq> [] \<and> list_all isalpha str)"

definition isValidPIN :: "int \<Rightarrow> bool" where
  "isValidPIN p = (MIN_PIN \<le> p \<and> p \<le> MAX_PIN)"


section \<open>File operations\<close>

text \<open>
  What the storage does to one \<^verbatim>\<open>saveAccounts\<close>: nothing wrong; \<^verbatim>\<open>fopen\<close> fails;
  \<^verbatim>\<open>fwrite\<close> of the count reports a failure; \<^verbatim>\<open>fwrite\<close> of the records reports
  only \<open>k\<close> of them; or both calls of \<^verbatim>\<open>fwrite\<close> report everything written (the data
  sits in the buffer of the stream) and the flush at \<^verbatim>\<open>fclose\<close> fails, so that nothing
  (\<open>None\<close>) or only the count and the first \<open>k\<close> records (\<open>Some k\<close>) reach the file.
\<close>

datatype disk_fault =
    NoFault
  | OpenFault
  | CountFault
  | RecordsFault nat
  | CloseFault "nat option"

definition records :: "state \<Rightarrow> int \<Rightarrow> Account list" where
  "records st n = map (accounts st) [0 .. n - 1]"

text \<open>
  \<^verbatim>\<open>saveAccounts\<close>: \<^verbatim>\<open>fopen(.., "wb")\<close> empties the file; then the count and
  \<^verbatim>\<open>accountCount\<close> records are written. A negative count is converted to a huge
  \<^verbatim>\<open>size_t\<close>, which no write can match. The result of \<^verbatim>\<open>fclose\<close> is not looked
  at: a failure there still returns \<open>SUCCESS\<close>.
\<close>

definition saveAccounts :: "disk_fault \<Rightarrow> state \<Rightarrow> ErrorCode \<times> state" where
  "saveAccounts io st =
     (let n = accountCount st in
      case io of
        OpenFault \<Rightarrow> (ERROR_FILE_IO, st)
      | CountFault \<Rightarrow> (ERROR_FILE_IO, st\<lparr>dataFile := Some (None, [])\<rparr>)
      | RecordsFault k \<Rightarrow>
          (if 0 \<le> n \<and> n \<le> int k then SUCCESS else ERROR_FILE_IO,
           st\<lparr>dataFile := Some (Some n, records st (min n (int k)))\<rparr>)
      | CloseFault None \<Rightarrow>
          (if 0 \<le> n then SUCCESS else ERROR_FILE_IO,
           st\<lparr>dataFile := Some (None, [])\<rparr>)
      | CloseFault (Some k) \<Rightarrow>
          (if 0 \<le> n then SUCCESS else ERROR_FILE_IO,
           st\<lparr>dataFile := Some (Some n, records st (min n (int k)))\<rparr>)
      | NoFault \<Rightarrow>
          (if 0 \<le> n then SUCCESS else ERROR_FILE_IO,
           st\<lparr>dataFile := Some (Some n, records st n)\<rparr>))"

text \<open>
  \<^verbatim>\<open>loadAccounts\<close>: a missing file is not an error. The count is read straight into
  \<^verbatim>\<open>accountCount\<close>; then as many records as the file has, up to that count, are read
  into the array from slot \<open>0\<close>; fewer than the count is an error (the count and the
  records read so far stay in memory).
\<close>

definition loadAccounts :: "state \<Rightarrow> ErrorCode \<times> state" where
  "loadAccounts st =
     (case dataFile st of
        None \<Rightarrow> (SUCCESS, st)
      | Some (None, recs) \<Rightarrow> (ERROR_FILE_IO, st)
      | Some (Some n, recs) \<Rightarrow>
          (let k = (if n < 0 then int (length recs) else min n (int (length recs)))
           in (if 0 \<le> n \<and> k = n then SUCCESS else ERROR_FILE_IO,
               st\<lparr>accountCount := n,
                  accounts := (\<lambda>i. if 0 \<le> i \<and> i < k then recs ! nat i
                                     else accounts st i)\<rparr>)))"


section \<open>Account management\<close>

text \<open>The loop of \<^verbatim>\<open>accountExists\<close>, from index \<open>i\<close> on.\<close>

function accountExists_from :: "int \<Rightarrow> string \<Rightarrow> int \<Rightarrow> state \<Rightarrow> bool" where
  "accountExists_from i nm p st =
     (if i < accountCount st
      then (if name (accounts st i) = nm \<or> pin (accounts st i) = p then True
            else accountExists_from (i + 1) nm p st)
      else False)"
  by pat_completeness auto
termination
  by (relation "measure (\<lambda>(i, nm, p, st). nat (accountCount st - i))") auto

declare accountExists_from.simps [simp del]

definition accountExists :: "string \<Rightarrow> int \<Rightarrow> state \<Rightarrow> bool" where
  "accountExists nm p st = accountExists_from 0 nm p st"

text \<open>
  \<^verbatim>\<open>initializeAccount\<close> overwrites every field of the slot it is given, so the model
  returns the new content. \<^verbatim>\<open>strncpy\<close> keeps at most \<open>MAX_NAME_LENGTH - 1\<close> characters.
\<close>

definition initializeAccount :: "string \<Rightarrow> int \<Rightarrow> Account" where
  "initializeAccount nm p =
     \<lparr>name = take (MAX_NAME_LENGTH - 1) nm, pin = p,
      balance = STARTING_BALANCE, loan = FNum 0,
      assets = \<lparr>crypto = FNum 0, gold = FNum 0, silver = FNum 0\<rparr>,
      currencies = \<lparr>eur = FNum 0, gbp = FNum 0, inr = FNum 0\<rparr>\<rparr>"

text \<open>
  The two input loops of \<^verbatim>\<open>createAccount\<close>. Each takes the answers the user gives
  to its prompt, in order (\<open>None\<close>: \<^verbatim>\<open>scanf\<close> matched nothing), and asks again until
  one is acceptable. A loop that has used up its answers is still waiting: \<open>None\<close>.
  \<^verbatim>\<open>scanf("%49s", name)\<close> stores the first 49 characters of the word typed.
\<close>

definition scanf_49s :: "string \<Rightarrow> string" where
  "scanf_49s word = take (MAX_NAME_LENGTH - 1) word"

fun readName :: "string option list \<Rightarrow> string option" where
  "readName [] = None"
| "readName (None # rest) = readName rest"
| "readName (Some word # rest) =
     (if isAlphaString (scanf_49s word) then Some (scanf_49s word) else readName rest)"

fun readPIN :: "int option list \<Rightarrow> int option" where
  "readPIN [] = None"
| "readPIN (None # rest) = readPIN rest"
| "readPIN (Some p # rest) = (if isValidPIN p then Some p else readPIN rest)"

definition createAccount ::
  "string option list \<Rightarrow> int option list \<Rightarrow> disk_fault \<Rightarrow> state \<Rightarrow> (ErrorCode \<times> state) option"
where
  "createAccount names pins io st =
     (if MAX_ACCOUNTS \<le> accountCount st then Some (ERROR_INVALID_INPUT, st)
      else case readName names of
        None \<Rightarrow> None
      | Some nm \<Rightarrow>
          (case readPIN pins of
             None \<Rightarrow> None
           | Some p \<Rightarrow>
               if accountExists nm p st then Some (ERROR_ACCOUNT_EXISTS, st)
               else Some (saveAccounts io
                      (st\<lparr>accounts := (accounts st)(accountCount st := initializeAccount nm p),
                         accountCount := accountCount st + 1\<rparr>))))"

text \<open>The search loop of \<^verbatim>\<open>loginAccount\<close>, from index \<open>i\<close> on: the first match.\<close>

function login_from :: "int \<Rightarrow> string \<Rightarrow> int \<Rightarrow> state \<Rightarrow> int option" where
  "login_from i nm p st =
     (if i < accountCount st
      then (if name (accounts st i) = nm \<and> pin (accounts st i) = p then Some i
            else login_from (i + 1) nm p st)
      else None)"
  by pat_completeness auto
termination
  by (relation "measure (\<lambda>(i, nm, p, st). nat (accountCount st - i))") auto

declare login_from.simps [simp del]

definition loginAccount :: "string option \<Rightarrow> int option \<Rightarrow> state \<Rightarrow> ErrorCode \<times> state" where
  "loginAccount nameIn pinIn st =
     (case nameIn of
        None \<Rightarrow> (ERROR_INVALID_INPUT, st)
      | Some nm \<Rightarrow>
          (case pinIn of
             None \<Rightarrow> (ERROR_INVALID_INPUT, st)
           | Some p \<Rightarrow>
               (case login_from 0 (scanf_49s nm) p st of
                  Some i \<Rightarrow> (SUCCESS, st\<lparr>currentUserIndex := i\<rparr>)
                | None \<Rightarrow> (ERROR_INVALID_PIN, st))))"

text \<open>\<^verbatim>\<open>Account *user = &accounts[currentUserIndex]\<close>, read and written.\<close>

definition user :: "state \<Rightarrow> Account" where
  "user st = accounts st (currentUserIndex st)"

definition upd_user :: "(Account \<Rightarrow> Account) \<Rightarrow> state \<Rightarrow> state" where
  "upd_user f st = st\<lparr>accounts := (accounts st)(currentUserIndex st := f (user st))\<rparr>"

text \<open>\<open>pinIn\<close> is what \<^verbatim>\<open>getIntInput\<close> read (\<open>None\<close>: no integer).\<close>

definition verifyPIN :: "int option \<Rightarrow> state \<Rightarrow> bool" where
  "verifyPIN pinIn st =
     (case pinIn of None \<Rightarrow> False | Some p \<Rightarrow> p = pin (user st))"


section \<open>Market operations\<close>

text \<open>The three arguments are the three results of \<^verbatim>\<open>rand()\<close>.\<close>

definition updateMarketPrices :: "nat \<Rightarrow> nat \<Rightarrow> nat \<Rightarrow> state \<Rightarrow> state" where
  "updateMarketPrices r1 r2 r3 st =
     (let cryptoChange = fdiv (float_of_int (int r1 mod 35 - 15)) (flit 100);
          goldChange = fdiv (float_of_int (int r2 mod 15 - 5)) (flit 100);
          silverChange = fdiv (float_of_int (int r3 mod 25 - 10)) (flit 100)
      in st\<lparr>marketPrices :=
              \<lparr>crypto = fmul (crypto (marketPrices st)) (fadd (flit 1) cryptoChange),
               gold = fmul (gold (marketPrices st)) (fadd (flit 1) goldChange),
               silver = fmul (silver (marketPrices st)) (fadd (flit 1) silverChange)\<rparr>\<rparr>)"


section \<open>Banking operations\<close>

definition depositCash :: "float \<Rightarrow> disk_fault \<Rightarrow> state \<Rightarrow> ErrorCode \<times> state" where
  "depositCash amount io st =
     (if fle amount (FNum 0) then (ERROR_INVALID_INPUT, st)
      else saveAccounts io (upd_user (balance_update (\<lambda>b. fadd b amount)) st))"

definition withdrawCash ::
  "float \<Rightarrow> int option \<Rightarrow> disk_fault \<Rightarrow> state \<Rightarrow> ErrorCode \<times> state"
where
  "withdrawCash amount pinIn io st =
     (if fle amount (FNum 0) then (ERROR_INVALID_INPUT, st)
      else if flt (balance (user st)) amount then (ERROR_INSUFFICIENT_FUNDS, st)
      else if \<not> verifyPIN pinIn st then (ERROR_INVALID_PIN, st)
      else saveAccounts io (upd_user (balance_update (\<lambda>b. fsub b amount)) st))"

definition shown :: "ErrorCode \<times> state \<Rightarrow> report \<times> state" where
  "shown r = (if fst r \<noteq> SUCCESS then Error (fst r) else Success, snd r)"

definition processCashTransaction ::
  "int option \<Rightarrow> float option \<Rightarrow> int option \<Rightarrow> disk_fault \<Rightarrow> state \<Rightarrow> report \<times> state"
where
  "processCashTransaction choiceIn amountIn pinIn io st =
     (case choiceIn of
        None \<Rightarrow> (Error ERROR_INVALID_INPUT, st)
      | Some choice \<Rightarrow>
          (case amountIn of
             None \<Rightarrow> (Error ERROR_INVALID_INPUT, st)
           | Some amount \<Rightarrow>
               if choice = 1 then shown (depositCash amount io st)
               else if choice = 2 then shown (withdrawCash amount pinIn io st)
               else (Error ERROR_INVALID_INPUT, st)))"

definition purchaseAsset ::
  "int option \<Rightarrow> int option \<Rightarrow> disk_fault \<Rightarrow> state \<Rightarrow> report \<times> state"
where
  "purchaseAsset pinIn choiceIn io st =
     (if flt (balance (user st)) ASSET_PURCHASE_AMOUNT
      then (Error ERROR_INSUFFICIENT_FUNDS, st)
      else if \<not> verifyPIN pinIn st then (Error ERROR_INVALID_PIN, st)
      else case choiceIn of
        None \<Rightarrow> (Error ERROR_INVALID_INPUT, st)
      | Some choice \<Rightarrow>
          (let st1 = upd_user (balance_update (\<lambda>b. fsub b ASSET_PURCHASE_AMOUNT)) st;
               units = ASSET_PURCHASE_AMOUNT
           in if choice = 1 then
                (let units = fdiv units (crypto (marketPrices st1))
                 in (Success, snd (saveAccounts io
                      (upd_user (assets_update (crypto_update (\<lambda>h. fadd h units))) st1))))
              else if choice = 2 then
                (let units = fdiv units (gold (marketPrices st1))
                 in (Success, snd (saveAccounts io
                      (upd_user (assets_update (gold_update (\<lambda>h. fadd h units))) st1))))
              else if choice = 3 then
                (let units = fdiv units (silver (marketPrices st1))
                 in (Success, snd (saveAccounts io
                      (upd_user (assets_update (silver_update (\<lambda>h. fadd h units))) st1))))
              else (Error ERROR_INVALID_INPUT,
                    upd_user (balance_update (\<lambda>b. fadd b ASSET_PURCHASE_AMOUNT)) st1)))"

definition manageLoan ::
  "int option \<Rightarrow> int option \<Rightarrow> disk_fault \<Rightarrow> state \<Rightarrow> report \<times> state"
where
  "manageLoan pinIn confirmIn io st =
     (if \<not> verifyPIN pinIn st then (Error ERROR_INVALID_PIN, st)
      else if feq (loan (user st)) (FNum 0) then
        (if confirmIn \<noteq> Some 1 then (Cancelled, st)
         else (Success, snd (saveAccounts io
                 (upd_user (balance_update (\<lambda>b. fadd b LOAN_AMOUNT))
                   (upd_user (loan_update (\<lambda>_. LOAN_AMOUNT)) st)))))
      else if fle (loan (user st)) (balance (user st)) then
        (if confirmIn \<noteq> Some 1 then (Cancelled, st)
         else (Success, snd (saveAccounts io
                 (upd_user (loan_update (\<lambda>_. FNum 0))
                   (upd_user (balance_update (\<lambda>b. fsub b (loan (user st)))) st)))))
      else (InfoInsufficient, st))"

definition addInterest :: "disk_fault \<Rightarrow> state \<Rightarrow> report \<times> state" where
  "addInterest io st =
     (let interest = fmul (balance (user st)) INTEREST_RATE
      in (Success, snd (saveAccounts io (upd_user (balance_update (\<lambda>b. fadd b interest)) st))))"

text \<open>
  \<^verbatim>\<open>manageForexWallet\<close> reads the menu choice, then for the choices \<open>1\<close> to \<open>3\<close> an
  amount, and for the choice \<open>4\<close> a currency choice and an amount. \<open>amountIn\<close> is the
  one amount either branch reads.
\<close>

definition manageForexWallet ::
  "int option \<Rightarrow> int option \<Rightarrow> float option \<Rightarrow> disk_fault \<Rightarrow> state \<Rightarrow> report \<times> state"
where
  "manageForexWallet choiceIn currencyIn amountIn io st =
     (case choiceIn of
        None \<Rightarrow> (Error ERROR_INVALID_INPUT, st)
      | Some choice \<Rightarrow>
          if 1 \<le> choice \<and> choice \<le> 3 then
            (case amountIn of
               None \<Rightarrow> (Error ERROR_INVALID_INPUT, st)
             | Some amount \<Rightarrow>
                 if flt (balance (user st)) amount
                 then (Error ERROR_INSUFFICIENT_FUNDS, st)
                 else
                   (let st1 = upd_user (balance_update (\<lambda>b. fsub b amount)) st;
                        st2 =
                          (if choice = 1 then
                             upd_user (currencies_update (eur_update
                               (\<lambda>h. fadd h (fdiv amount (eur (exchangeRates st1)))))) st1
                           else if choice = 2 then
                             upd_user (currencies_update (gbp_update
                               (\<lambda>h. fadd h (fdiv amount (gbp (exchangeRates st1)))))) st1
                           else if choice = 3 then
                             upd_user (currencies_update (inr_update
                               (\<lambda>h. fadd h (fdiv amount (inr (exchangeRates st1)))))) st1
                           else st1)
                    in (Success, snd (saveAccounts io st2))))
          else if choice = 4 then
            (case currencyIn of
               None \<Rightarrow> (Error ERROR_INVALID_INPUT, st)
             | Some currencyChoice \<Rightarrow>
                 (case amountIn of
                    None \<Rightarrow> (Error ERROR_INVALID_INPUT, st)
                  | Some amount \<Rightarrow>
                      if currencyChoice = 1 \<and> fle amount (eur (currencies (user st))) then
                        (let st1 = upd_user (currencies_update (eur_update
                                     (\<lambda>h. fsub h amount))) st;
                             usdAmount = fmul amount (eur (exchangeRates st1))
                         in (Success, snd (saveAccounts io
                               (upd_user (balance_update (\<lambda>b. fadd b usdAmount)) st1))))
                      else if currencyChoice = 2 \<and> fle amount (gbp (currencies (user st))) then
                        (let st1 = upd_user (currencies_update (gbp_update
                                     (\<lambda>h. fsub h amount))) st;
                             usdAmount = fmul amount (gbp (exchangeRates st1))
                         in (Success, snd (saveAccounts io
                               (upd_user (balance_update (\<lambda>b. fadd b usdAmount)) st1))))
                      else if currencyChoice = 3 \<and> fle amount (inr (currencies (user st))) then
                        (let st1 = upd_user (currencies_update (inr_update
                                     (\<lambda>h. fsub h amount))) st;
                             usdAmount = fmul amount (inr (exchangeRates st1))
                         in (Success, snd (saveAccounts io
                               (upd_user (balance_update (\<lambda>b. fadd b usdAmount)) st1))))
                      else (Error ERROR_INSUFFICIENT_FUNDS, st)))
          else (NoAction, st))"


section \<open>The user menu\<close>

text \<open>
  One turn of the post-login menu of \<^verbatim>\<open>main\<close> that changes an account: the menu
  entry together with the answers the operation will read.
\<close>

datatype request =
    CashTransaction "int option" "float option" "int option"
  | PurchaseAsset "int option" "int option"
  | ManageLoan "int option" "int option"
  | AddInterest
  | ForexWallet "int option" "int option" "float option"

fun userMenu :: "request \<Rightarrow> disk_fault \<Rightarrow> state \<Rightarrow> report \<times> state" where
  "userMenu (CashTransaction choiceIn amountIn pinIn) io st =
     processCashTransaction choiceIn amountIn pinIn io st"
| "userMenu (PurchaseAsset pinIn choiceIn) io st = purchaseAsset pinIn choiceIn io st"
| "userMenu (ManageLoan pinIn confirmIn) io st = manageLoan pinIn confirmIn io st"
| "userMenu AddInterest io st = addInterest io st"
| "userMenu (ForexWallet choiceIn currencyIn amountIn) io st =
     manageForexWallet choiceIn currencyIn amountIn io st"


section \<open>States used in the examples\<close>

text \<open>The fresh accounts of Alice and Bob.\<close>

definition aliceAccount :: Account where
  "aliceAccount =
     \<lparr>name = ''Alice'', pin = 1234, balance = FNum 1000, loan = FNum 0,
      assets = \<lparr>crypto = FNum 0, gold = FNum 0, silver = FNum 0\<rparr>,
      currencies = \<lparr>eur = FNum 0, gbp = FNum 0, inr = FNum 0\<rparr>\<rparr>"

definition bobAccount :: Account where
  "bobAccount =
     \<lparr>name = ''Bob'', pin = 4321, balance = FNum 1000, loan = FNum 0,
      assets = \<lparr>crypto = FNum 0, gold = FNum 0, silver = FNum 0\<rparr>,
      currencies = \<lparr>eur = FNum 0, gbp = FNum 0, inr = FNum 0\<rparr>\<rparr>"

text \<open>Alice registers at the first start of the program; then she logs in.\<close>

definition registeredState :: state where
  "registeredState =
     snd (the (createAccount [Some ''Alice''] [Some 1234] NoFault initState))"

definition aliceState :: state where
  "aliceState = snd (loginAccount (Some ''Alice'') (Some 1234) registeredState)"

text \<open>Alice and Bob register; Alice logs in.\<close>

definition aliceBobState :: state where
  "aliceBobState =
     snd (loginAccount (Some ''Alice'') (Some 1234)
       (snd (the (createAccount [Some ''Bob''] [Some 4321] NoFault
         (snd (the (createAccount [Some ''Alice''] [Some 1234] NoFault initState)))))))"

text \<open>
  A full registry: \<open>MAX_ACCOUNTS\<close> fresh accounts with the names \<open>aa\<close>, \<open>ab\<close>, \<open>\<dots>\<close>
  and the PINs \<open>1000\<close>, \<open>1001\<close>, \<open>\<dots>\<close>.
\<close>

definition memberName :: "int \<Rightarrow> string" where
  "memberName i = [char_of (97 + nat i div 26), char_of (97 + nat i mod 26)]"

definition fullState :: state where
  "fullState =
     initState\<lparr>accounts := (\<lambda>i. if 0 \<le> i \<and> i < MAX_ACCOUNTS
                                then initializeAccount (memberName i) (MIN_PIN + i)
                                else zeroAccount),
               accountCount := MAX_ACCOUNTS\<rparr>"

text \<open>Alice converts \<open>-5000\<close> EUR to USD (menu choice \<open>4\<close>, currency \<open>1\<close>).\<close>

definition overdrawnState :: state where
  "overdrawnState =
     snd (manageForexWallet (Some 4) (Some 1) (Some (FNum (- 5000))) NoFault aliceState)"

text \<open>Alice takes the loan (PIN \<open>1234\<close>, confirmation \<open>1\<close>).\<close>

definition aliceLoanState :: state where
  "aliceLoanState = snd (manageLoan (Some 1234) (Some 1) NoFault aliceState)"

text \<open>Alice deposits \<open>67107968\<close> dollars.\<close>

definition richState :: state where
  "richState = snd (depositCash (FNum 67107968) NoFault aliceState)"

text \<open>Alice converts \<open>566\<close> dollars to EUR (menu choice \<open>1\<close>).\<close>

definition eurState :: state where
  "eurState = snd (manageForexWallet (Some 1) None (Some (FNum 566)) NoFault aliceState)"


section \<open>Basic facts\<close>

text \<open>The constants and the example states, evaluated.\<close>

lemma STARTING_BALANCE_value: "STARTING_BALANCE = FNum 1000"
  by code_simp

lemma LOAN_AMOUNT_value: "LOAN_AMOUNT = FNum 500"
  by code_simp

lemma ASSET_PURCHASE_AMOUNT_value: "ASSET_PURCHASE_AMOUNT = FNum 100"
  by code_simp

lemma price_values:
  "flit 150 = FNum 150" "flit 60 = FNum 60" "flit 25 = FNum 25"
  by code_simp+

lemma rate_values:
  "flit (11 / 10) = FNum (9227469 / 8388608)"
  "flit (127 / 100) = FNum (2663383 / 2097152)"
  "flit (3 / 250) = FNum (6442451 / 536870912)"
  by code_simp+

lemma isAlphaString_examples: "isAlphaString ''Alice''" "isAlphaString ''Bob''"
  by code_simp+

lemmas example_unfold =
  createAccount_def loginAccount_def initState_def
  MAX_ACCOUNTS_def MAX_NAME_LENGTH_def scanf_49s_def isAlphaString_examples isValidPIN_def
  MIN_PIN_def MAX_PIN_def accountExists_def accountExists_from.simps
  login_from.simps saveAccounts_def records_def initializeAccount_def
  STARTING_BALANCE_value price_values rate_values aliceAccount_def bobAccount_def Let_def

lemma registeredState_closed:
  "registeredState =
     \<lparr>accounts = (\<lambda>_. zeroAccount)(0 := aliceAccount),
      accountCount = 1, currentUserIndex = - 1,
      marketPrices = \<lparr>crypto = FNum 150, gold = FNum 60, silver = FNum 25\<rparr>,
      exchangeRates = \<lparr>eur = FNum (9227469 / 8388608), gbp = FNum (2663383 / 2097152),
                       inr = FNum (6442451 / 536870912)\<rparr>,
      dataFile = Some (Some 1, [aliceAccount])\<rparr>"
  by (simp add: registeredState_def example_unfold)

lemma aliceState_closed:
  "aliceState =
     \<lparr>accounts = (\<lambda>_. zeroAccount)(0 := aliceAccount),
      accountCount = 1, currentUserIndex = 0,
      marketPrices = \<lparr>crypto = FNum 150, gold = FNum 60, silver = FNum 25\<rparr>,
      exchangeRates = \<lparr>eur = FNum (9227469 / 8388608), gbp = FNum (2663383 / 2097152),
                       inr = FNum (6442451 / 536870912)\<rparr>,
      dataFile = Some (Some 1, [aliceAccount])\<rparr>"
  by (simp add: aliceState_def registeredState_closed example_unfold)

lemma aliceBobState_closed:
  "aliceBobState =
     \<lparr>accounts = (\<lambda>_. zeroAccount)(0 := aliceAccount, 1 := bobAccount),
      accountCount = 2, currentUserIndex = 0,
      marketPrices = \<lparr>crypto = FNum 150, gold = FNum 60, silver = FNum 25\<rparr>,
      exchangeRates = \<lparr>eur = FNum (9227469 / 8388608), gbp = FNum (2663383 / 2097152),
                       inr = FNum (6442451 / 536870912)\<rparr>,
      dataFile = Some (Some 2, [aliceAccount, bobAccount])\<rparr>"
  by (simp add: aliceBobState_def example_unfold upto_rec1)

lemma user_aliceState: "user aliceState = aliceAccount"
  by (simp add: aliceState_closed user_def)

lemma currentUser_aliceState: "currentUserIndex aliceState = 0"
  by (simp add: aliceState_closed)

lemma rates_aliceState:
  "exchangeRates aliceState =
     \<lparr>eur = FNum (9227469 / 8388608), gbp = FNum (2663383 / 2097152),
      inr = FNum (6442451 / 536870912)\<rparr>"
  by (simp add: aliceState_closed)

lemma saveAccounts_fields [simp]:
  "accounts (snd (saveAccounts io st)) = accounts st"
  "accountCount (snd (saveAccounts io st)) = accountCount st"
  "currentUserIndex (snd (saveAccounts io st)) = currentUserIndex st"
  "marketPrices (snd (saveAccounts io st)) = marketPrices st"
  "exchangeRates (snd (saveAccounts io st)) = exchangeRates st"
  by (simp_all add: saveAccounts_def Let_def split: disk_fault.split option.split)

lemma user_saveAccounts [simp]: "user (snd (saveAccounts io st)) = user st"
  by (simp add: user_def)

lemma saveAccounts_result: "fst (saveAccounts io st) \<in> {SUCCESS, ERROR_FILE_IO}"
  by (simp add: saveAccounts_def Let_def split: disk_fault.split option.split)

lemma upd_user_fields [simp]:
  "accounts (upd_user f st) = (accounts st)(currentUserIndex st := f (user st))"
  "accountCount (upd_user f st) = accountCount st"
  "currentUserIndex (upd_user f st) = currentUserIndex st"
  "marketPrices (upd_user f st) = marketPrices st"
  "exchangeRates (upd_user f st) = exchangeRates st"
  "dataFile (upd_user f st) = dataFile st"
  by (simp_all add: upd_user_def)

lemma user_upd_user [simp]: "user (upd_user f st) = f (user st)"
  by (simp add: user_def)

lemma upd_user_twice: "upd_user g (upd_user f st) = upd_user (\<lambda>a. g (f a)) st"
  by (simp add: upd_user_def user_def)

lemma upd_user_same: "f (user st) = user st \<Longrightarrow> upd_user f st = st"
  by (simp add: upd_user_def user_def)

lemmas float_ops = fadd.simps fmul.simps fdiv.simps

text \<open>Single-precision results used in the examples.\<close>

lemma loan_arith:
  "fadd (FNum 1000) (FNum 500) = FNum 1500"
  "fsub (FNum 1500) (FNum 500) = FNum 1000"
  by code_simp+

lemma user_aliceLoanState:
  "user aliceLoanState = aliceAccount\<lparr>balance := FNum 1500, loan := FNum 500\<rparr>"
  by (simp add: aliceLoanState_def manageLoan_def verifyPIN_def user_aliceState
        aliceAccount_def LOAN_AMOUNT_value loan_arith del: float_ops)

lemma refund_arith:
  "fadd (FNum 1000) (FNum 67107968) = FNum 67108968"
  "fsub (FNum 67108968) (FNum 100) = FNum 67108864"
  "fadd (FNum 67108864) (FNum 100) = FNum 67108960"
  by code_simp+

lemma user_richState: "user richState = aliceAccount\<lparr>balance := FNum 67108968\<rparr>"
  by (simp add: richState_def depositCash_def fle_def user_aliceState aliceAccount_def
        refund_arith del: float_ops)

lemma overdraw_arith:
  "fsub (FNum 0) (FNum (- 5000)) = FNum 5000"
  "fmul (FNum (- 5000)) (FNum (9227469 / 8388608)) = FNum (- 5500)"
  "fadd (FNum 1000) (FNum (- 5500)) = FNum (- 4500)"
  by code_simp+

lemma user_overdrawnState:
  "user overdrawnState =
     aliceAccount\<lparr>balance := FNum (- 4500),
       currencies := \<lparr>eur = FNum 5000, gbp = FNum 0, inr = FNum 0\<rparr>\<rparr>"
  by (simp add: overdrawnState_def manageForexWallet_def user_aliceState rates_aliceState
        aliceAccount_def fle_def overdraw_arith Let_def del: float_ops)

lemma withdraw_arith: "fsub (FNum 1000) (FNum 100) = FNum 900"
  by code_simp

lemma negative_convert_arith:
  "fsub (FNum 1000) (FNum (- 110)) = FNum 1110"
  "fdiv (FNum (- 110)) (FNum (9227469 / 8388608)) = FNum (- 100)"
  "fadd (FNum 0) (FNum (- 100)) = FNum (- 100)"
  by code_simp+

lemma roundtrip_arith:
  "fsub (FNum 1000) (FNum 566) = FNum 434"
  "fdiv (FNum 566) (FNum (9227469 / 8388608)) = FNum (8430313 / 16384)"
  "fadd (FNum 0) (FNum (8430313 / 16384)) = FNum (8430313 / 16384)"
  "fsub (FNum (8430313 / 16384)) (FNum (8430313 / 16384)) = FNum 0"
  "fmul (FNum (8430313 / 16384)) (FNum (9227469 / 8388608)) = FNum (9273345 / 16384)"
  "fadd (FNum 434) (FNum (9273345 / 16384)) = FNum (16384001 / 16384)"
  by code_simp+

lemma user_eurState:
  "user eurState =
     aliceAccount\<lparr>balance := FNum 434,
       currencies := \<lparr>eur = FNum (8430313 / 16384), gbp = FNum 0, inr = FNum 0\<rparr>\<rparr>"
  by (simp add: eurState_def manageForexWallet_def user_aliceState rates_aliceState
        aliceAccount_def roundtrip_arith Let_def del: float_ops)

lemma rates_eurState: "exchangeRates eurState = exchangeRates aliceState"
  by (simp add: eurState_def manageForexWallet_def user_aliceState aliceAccount_def
        roundtrip_arith Let_def del: float_ops)

lemma example_roundtrip_arith:
  "fsub (FNum 1000) (FNum 50) = FNum 950"
  "fdiv (FNum 50) (FNum (9227469 / 8388608)) = FNum (2978909 / 65536)"
  "fadd (FNum 0) (FNum (2978909 / 65536)) = FNum (2978909 / 65536)"
  "fmul (FNum (2978909 / 65536)) (FNum (9227469 / 8388608)) = FNum 50"
  "fadd (FNum 950) (FNum 50) = FNum 1000"
  by code_simp+


lemma deposit_arith: "fadd (FNum 1000) (FNum 50) = FNum 1050"
  by code_simp

text \<open>The records written to the file, and the loops over the registry.\<close>

lemma length_records: "length (records st n) = nat n"
  by (simp add: records_def)

lemma nth_records: "0 \<le> i \<Longrightarrow> i < n \<Longrightarrow> records st n ! nat i = accounts st i"
  by (simp add: records_def)







lemma fullState_count: "accountCount fullState = 100"
  by (simp add: fullState_def MAX_ACCOUNTS_def)





section \<open>Withdrawal: the failure cases\<close>

text \<open>
  Claim C4, as stated, fails, in two places. First, the amount is checked before the
  funds: on Alice's overdrawn account (balance \<open>-4500\<close>, reached by converting \<open>-5000\<close>
  EUR) the amount \<open>-5\<close> exceeds the balance, and the withdrawal is refused with
  \<open>ERROR_INVALID_INPUT\<close>, not with \<open>ERROR_INSUFFICIENT_FUNDS\<close>. Second, one failure does
  change the account: when the file cannot be opened, the withdrawal of \<open>100\<close> from
  Alice's fresh account returns \<open>ERROR_FILE_IO\<close> with the balance already at \<open>900\<close>.
\<close>

theorem withdrawCash_claim_fails:
  "balance (user overdrawnState) = FNum (- 4500) \<and>
   flt (balance (user overdrawnState)) (FNum (- 5)) \<and>
   withdrawCash (FNum (- 5)) (Some 1234) NoFault overdrawnState
     = (ERROR_INVALID_INPUT, overdrawnState) \<and>
   balance (user aliceState) = FNum 1000 \<and>
   fst (withdrawCash (FNum 100) (Some 1234) OpenFault aliceState) = ERROR_FILE_IO \<and>
   balance (user (snd (withdrawCash (FNum 100) (Some 1234) OpenFault aliceState)))
     = FNum 900"
  by (simp add: withdrawCash_def saveAccounts_def verifyPIN_def fle_def user_overdrawnState
        user_aliceState aliceAccount_def withdraw_arith fsub_def [symmetric]
        del: float_ops)

text \<open>
  Claim C4, amended. \<^verbatim>\<open>withdrawCash\<close> checks, in this order, the amount, the funds
  and the re-entered PIN. An amount \<open>\<le> 0\<close> is refused with \<open>ERROR_INVALID_INPUT\<close> (the
  code the program has for an invalid amount). An amount that passed this check and
  exceeds the cash balance is refused with \<open>ERROR_INSUFFICIENT_FUNDS\<close>; so is every
  amount above the balance of an account whose balance is not negative. A wrong PIN
  (or none), asked for once the two checks have passed, is refused with
  \<open>ERROR_INVALID_PIN\<close>. Each of these three refusals returns the state it was given: no
  field of any account, nor the data file, changes. With the PIN verified the balance
  is debited and the result is that of \<^verbatim>\<open>saveAccounts\<close>: an \<open>ERROR_FILE_IO\<close> comes
  with the debit made.
\<close>

theorem withdrawCash_failure_cases:
  "(fle amount (FNum 0) \<longrightarrow>
      withdrawCash amount pinIn io st = (ERROR_INVALID_INPUT, st)) \<and>
   (fle (FNum 0) (balance (user st)) \<and> flt (balance (user st)) amount \<longrightarrow>
      withdrawCash amount pinIn io st = (ERROR_INSUFFICIENT_FUNDS, st)) \<and>
   (\<not> fle amount (FNum 0) \<and> flt (balance (user st)) amount \<longrightarrow>
      withdrawCash amount pinIn io st = (ERROR_INSUFFICIENT_FUNDS, st)) \<and>
   (\<not> fle amount (FNum 0) \<and> \<not> flt (balance (user st)) amount \<and> \<not> verifyPIN pinIn st \<longrightarrow>
      withdrawCash amount pinIn io st = (ERROR_INVALID_PIN, st)) \<and>
   (\<not> fle amount (FNum 0) \<and> \<not> flt (balance (user st)) amount \<and> verifyPIN pinIn st \<longrightarrow>
      withdrawCash amount pinIn io st
        = saveAccounts io (upd_user (balance_update (\<lambda>b. fsub b amount)) st) \<and>
      fst (withdrawCash amount pinIn io st) \<in> {SUCCESS, ERROR_FILE_IO} \<and>
      balance (user (snd (withdrawCash amount pinIn io st)))
        = fsub (balance (user st)) amount) \<and>
   (fst (withdrawCash amount pinIn io st) \<in>
        {ERROR_INVALID_INPUT, ERROR_INSUFFICIENT_FUNDS, ERROR_INVALID_PIN} \<longrightarrow>
      snd (withdrawCash amount pinIn io st) = st)"
proof -
  have order: "\<not> fle amount (FNum 0)"
    if "fle (FNum 0) (balance (user st))" "flt (balance (user st)) amount"
    using that by (cases amount; cases "balance (user st)") (auto simp: fle_def)
  show ?thesis
    using order saveAccounts_result [of io "upd_user (balance_update (\<lambda>b. fsub b amount)) st"]
    by (auto simp: withdrawCash_def)
qed

text \<open>
  The three refusals on Alice's fresh account (balance \<open>1000\<close>, PIN \<open>1234\<close>): an amount
  of \<open>-5\<close>, an amount of \<open>2000\<close>, and \<open>100\<close> with the PIN \<open>1111\<close>. With the PIN \<open>1234\<close>
  the \<open>100\<close> are paid out.
\<close>

theorem withdrawCash_failure_cases_witness:
  "fle (FNum (- 5)) (FNum 0) \<and>
   withdrawCash (FNum (- 5)) (Some 1234) NoFault aliceState = (ERROR_INVALID_INPUT, aliceState) \<and>
   fle (FNum 0) (balance (user aliceState)) \<and> flt (balance (user aliceState)) (FNum 2000) \<and>
   withdrawCash (FNum 2000) (Some 1234) NoFault aliceState
     = (ERROR_INSUFFICIENT_FUNDS, aliceState) \<and>
   \<not> fle (FNum 100) (FNum 0) \<and> \<not> flt (balance (user aliceState)) (FNum 100) \<and>
   \<not> verifyPIN (Some 1111) aliceState \<and>
   withdrawCash (FNum 100) (Some 1111) NoFault aliceState = (ERROR_INVALID_PIN, aliceState) \<and>
   verifyPIN (Some 1234) aliceState \<and>
   balance (user (snd (withdrawCash (FNum 100) (Some 1234) NoFault aliceState))) = FNum 900"
  using withdrawCash_failure_cases [of "FNum (- 5)" "Some 1234" NoFault aliceState]
    withdrawCash_failure_cases [of "FNum 2000" "Some 1234" NoFault aliceState]
    withdrawCash_failure_cases [of "FNum 100" "Some 1111" NoFault aliceState]
    withdrawCash_failure_cases [of "FNum 100" "Some 1234" NoFault aliceState]
  by (simp add: fle_def verifyPIN_def user_aliceState aliceAccount_def withdraw_arith
        del: float_ops)


section \<open>The loan\<close>

text \<open>
  Claim C5, as stated, fails. \<^verbatim>\<open>manageLoan\<close> is one menu entry: with no loan it
  offers the loan, with a loan outstanding it offers to repay it. Alice, who has just
  taken the loan of \<open>500\<close>, calls it again with her PIN and the confirmation \<open>1\<close>: the
  call succeeds, the loan is repaid and the balance is back at \<open>1000\<close>. No error is
  reported; the program has no code for an active loan.
\<close>

theorem manageLoan_second_call_repays:
  "loan (user aliceLoanState) = FNum 500 \<and>
   fst (manageLoan (Some 1234) (Some 1) NoFault aliceLoanState) = Success \<and>
   loan (user (snd (manageLoan (Some 1234) (Some 1) NoFault aliceLoanState))) = FNum 0 \<and>
   balance (user (snd (manageLoan (Some 1234) (Some 1) NoFault aliceLoanState))) = FNum 1000"
  by (simp add: manageLoan_def verifyPIN_def user_aliceLoanState aliceAccount_def fle_def
        loan_arith del: float_ops)

text \<open>
  Claim C5, amended. With the PIN verified and the confirmation \<open>1\<close>, \<^verbatim>\<open>manageLoan\<close>
  on an account without a loan sets the loan to \<open>500\<close> and the balance to the
  single-precision sum of the balance and \<open>500\<close>. Called while a loan is outstanding
  it never lends again and reports no error: with the confirmation \<open>1\<close> and a balance
  that covers the loan it repays (the loan becomes \<open>0\<close>, the balance is reduced by the
  loan); otherwise it reports a cancellation or the insufficient-funds notice and
  returns the state it was given.
\<close>

theorem manageLoan_take_then_repay:
  "(verifyPIN pinIn st \<and> feq (loan (user st)) (FNum 0) \<longrightarrow>
      fst (manageLoan pinIn (Some 1) io st) = Success \<and>
      loan (user (snd (manageLoan pinIn (Some 1) io st))) = FNum 500 \<and>
      balance (user (snd (manageLoan pinIn (Some 1) io st)))
        = fadd (balance (user st)) (FNum 500)) \<and>
   (verifyPIN pinIn st \<and> \<not> feq (loan (user st)) (FNum 0) \<longrightarrow>
      (if confirmIn = Some 1 \<and> fle (loan (user st)) (balance (user st))
       then fst (manageLoan pinIn confirmIn io st) = Success \<and>
            loan (user (snd (manageLoan pinIn confirmIn io st))) = FNum 0 \<and>
            balance (user (snd (manageLoan pinIn confirmIn io st)))
              = fsub (balance (user st)) (loan (user st))
       else fst (manageLoan pinIn confirmIn io st) \<in> {Cancelled, InfoInsufficient} \<and>
            snd (manageLoan pinIn confirmIn io st) = st))"
  by (simp add: manageLoan_def LOAN_AMOUNT_value)

text \<open>
  Alice takes the loan, then repays it; asked again with the confirmation \<open>0\<close>, nothing
  changes.
\<close>

theorem manageLoan_take_then_repay_witness:
  "verifyPIN (Some 1234) aliceState \<and> feq (loan (user aliceState)) (FNum 0) \<and>
   loan (user (snd (manageLoan (Some 1234) (Some 1) NoFault aliceState))) = FNum 500 \<and>
   balance (user (snd (manageLoan (Some 1234) (Some 1) NoFault aliceState)))
     = fadd (FNum 1000) (FNum 500) \<and>
   verifyPIN (Some 1234) aliceLoanState \<and> \<not> feq (loan (user aliceLoanState)) (FNum 0) \<and>
   fle (loan (user aliceLoanState)) (balance (user aliceLoanState)) \<and>
   loan (user (snd (manageLoan (Some 1234) (Some 1) NoFault aliceLoanState))) = FNum 0 \<and>
   snd (manageLoan (Some 1234) (Some 0) NoFault aliceLoanState) = aliceLoanState"
  using manageLoan_take_then_repay
          [where pinIn = "Some 1234" and st = aliceState and io = NoFault]
        manageLoan_take_then_repay
          [where pinIn = "Some 1234" and st = aliceLoanState and io = NoFault
             and confirmIn = "Some 1"]
        manageLoan_take_then_repay
          [where pinIn = "Some 1234" and st = aliceLoanState and io = NoFault
             and confirmIn = "Some 0"]
  by (simp add: verifyPIN_def user_aliceState user_aliceLoanState aliceAccount_def fle_def
        loan_arith del: float_ops)


section \<open>The refund of an asset purchase\<close>

text \<open>
  Claim C7, as stated, fails. The refund is \<open>(b - 100) + 100\<close> in single precision.
  With Alice's balance at \<open>67108968\<close> (after a deposit of \<open>67107968\<close>), the debit gives
  \<open>67108868\<close>, which lies halfway between the neighbours \<open>67108864\<close> and \<open>67108872\<close> and is
  rounded to \<open>67108864\<close>; the refund gives \<open>67108964\<close>, rounded to \<open>67108960\<close>. The
  invalid selection \<open>7\<close> costs her eight dollars.
\<close>

theorem purchaseAsset_refund_rounds:
  "balance (user richState) = FNum 67108968 \<and>
   \<not> flt (balance (user richState)) ASSET_PURCHASE_AMOUNT \<and>
   verifyPIN (Some 1234) richState \<and>
   fst (purchaseAsset (Some 1234) (Some 7) NoFault richState) = Error ERROR_INVALID_INPUT \<and>
   balance (user (snd (purchaseAsset (Some 1234) (Some 7) NoFault richState)))
     = FNum 67108960"
  by (simp add: purchaseAsset_def verifyPIN_def user_richState aliceAccount_def
        ASSET_PURCHASE_AMOUNT_value refund_arith Let_def del: float_ops)

text \<open>
  Claim C7, amended. With a balance of at least the purchase amount, the PIN verified
  and a selection other than \<open>1\<close>, \<open>2\<close>, \<open>3\<close>, \<^verbatim>\<open>purchaseAsset\<close> reports
  \<open>ERROR_INVALID_INPUT\<close>, writes nothing to the file and changes nothing but the user's
  balance, which becomes \<open>(b - 100) + 100\<close>, each operation rounded to single
  precision. Whenever \<open>b - 100\<close> is itself a single-precision number the balance is
  \<open>b\<close> again and the whole state is the one before the call.
\<close>

theorem purchaseAsset_invalid_choice:
  assumes funds: "\<not> flt (balance (user st)) ASSET_PURCHASE_AMOUNT"
    and pin_ok: "verifyPIN pinIn st"
    and choice: "choice \<noteq> 1" "choice \<noteq> 2" "choice \<noteq> 3"
  shows "purchaseAsset pinIn (Some choice) io st =
           (Error ERROR_INVALID_INPUT,
            upd_user (balance_update
              (\<lambda>b. fadd (fsub b ASSET_PURCHASE_AMOUNT) ASSET_PURCHASE_AMOUNT)) st) \<and>
         assets (user (snd (purchaseAsset pinIn (Some choice) io st))) = assets (user st) \<and>
         (\<forall>b. balance (user st) = FNum b \<and> round32 b = FNum b \<and>
               round32 (b - 100) = FNum (b - 100) \<longrightarrow>
              snd (purchaseAsset pinIn (Some choice) io st) = st)"
proof -
  let ?refund = "\<lambda>b. fadd (fsub b ASSET_PURCHASE_AMOUNT) ASSET_PURCHASE_AMOUNT"
  have run: "purchaseAsset pinIn (Some choice) io st =
               (Error ERROR_INVALID_INPUT, upd_user (balance_update ?refund) st)"
    using funds pin_ok choice by (simp add: purchaseAsset_def Let_def upd_user_twice comp_def)
  have exact: "upd_user (balance_update ?refund) st = st"
    if "balance (user st) = FNum b" "round32 b = FNum b" "round32 (b - 100) = FNum (b - 100)"
    for b
  proof (rule upd_user_same)
    have "?refund (FNum b) = FNum b"
      using that by (simp add: ASSET_PURCHASE_AMOUNT_value fsub_def)
    with that(1) show "balance_update ?refund (user st) = user st"
      by simp
  qed
  show ?thesis
    using run exact by simp
qed

text \<open>Alice's fresh account: the selection \<open>7\<close> leaves the state as it was.\<close>

theorem purchaseAsset_invalid_choice_witness:
  "\<not> flt (balance (user aliceState)) ASSET_PURCHASE_AMOUNT \<and>
   verifyPIN (Some 1234) aliceState \<and>
   balance (user aliceState) = FNum 1000 \<and> round32 1000 = FNum 1000 \<and>
   round32 (1000 - 100) = FNum (1000 - 100) \<and>
   purchaseAsset (Some 1234) (Some 7) NoFault aliceState
     = (Error ERROR_INVALID_INPUT, aliceState)"
proof -
  have funds: "\<not> flt (balance (user aliceState)) ASSET_PURCHASE_AMOUNT"
    by (simp add: user_aliceState aliceAccount_def ASSET_PURCHASE_AMOUNT_value)
  have pin_ok: "verifyPIN (Some 1234) aliceState"
    by (simp add: verifyPIN_def user_aliceState aliceAccount_def)
  have bal: "balance (user aliceState) = FNum 1000"
    by (simp add: user_aliceState aliceAccount_def)
  have r1: "round32 1000 = FNum 1000" by code_simp
  have r2: "round32 (1000 - 100) = FNum (1000 - 100)" by code_simp
  have all: "purchaseAsset (Some 1234) (Some 7) NoFault aliceState =
           (Error ERROR_INVALID_INPUT,
            upd_user (balance_update
              (\<lambda>b. fadd (fsub b ASSET_PURCHASE_AMOUNT) ASSET_PURCHASE_AMOUNT)) aliceState) \<and>
         assets (user (snd (purchaseAsset (Some 1234) (Some 7) NoFault aliceState)))
           = assets (user aliceState) \<and>
         (\<forall>b. balance (user aliceState) = FNum b \<and> round32 b = FNum b \<and>
               round32 (b - 100) = FNum (b - 100) \<longrightarrow>
              snd (purchaseAsset (Some 1234) (Some 7) NoFault aliceState) = aliceState)"
    by (rule purchaseAsset_invalid_choice [OF funds pin_ok]) simp_all
  then have "snd (purchaseAsset (Some 1234) (Some 7) NoFault aliceState) = aliceState"
    using bal r1 r2 by blast
  moreover have "fst (purchaseAsset (Some 1234) (Some 7) NoFault aliceState)
                   = Error ERROR_INVALID_INPUT"
    using all by simp
  ultimately have "purchaseAsset (Some 1234) (Some 7) NoFault aliceState
          = (Error ERROR_INVALID_INPUT, aliceState)"
    by (simp add: prod_eq_iff)
  with funds pin_ok bal r1 r2 show ?thesis by simp
qed


section \<open>Currency conversion\<close>

text \<open>
  Claim C1: what the program does at the failing input. \<^verbatim>\<open>manageForexWallet\<close> never
  checks the sign of an amount. Alice, with \<open>1000\<close> dollars and no euros, asks to
  convert \<open>-5000\<close> EUR to USD: \<open>-5000 \<le> 0\<close> passes the holdings check, her euros
  become \<open>5000\<close> and her cash balance \<open>1000 + (-5000 \<times> 1.1) = -4500\<close>.
\<close>

theorem forex_negative_amount_overdraws:
  "balance (user aliceState) = FNum 1000 \<and>
   fle (FNum (- 5000)) (eur (currencies (user aliceState))) \<and>
   fst (manageForexWallet (Some 4) (Some 1) (Some (FNum (- 5000))) NoFault aliceState)
     = Success \<and>
   balance (user (snd (manageForexWallet (Some 4) (Some 1) (Some (FNum (- 5000))) NoFault
       aliceState))) = FNum (- 4500) \<and>
   eur (currencies (user (snd (manageForexWallet (Some 4) (Some 1) (Some (FNum (- 5000)))
       NoFault aliceState)))) = FNum 5000 \<and>
   \<not> fle (FNum 0) (FNum (- 4500))"
  by (simp add: manageForexWallet_def user_aliceState rates_aliceState aliceAccount_def
        fle_def overdraw_arith Let_def del: float_ops)

text \<open>
  Claim C6: what the program does at the failing input. Alice asks to convert \<open>-110\<close>
  dollars to EUR: the only check is \<open>amount > balance\<close>, so the conversion succeeds,
  her cash balance rises to \<open>1110\<close> and her euro holdings fall to \<open>-100\<close>.
\<close>

theorem convertToForeign_negative_amount_accepted:
  "fle (FNum (- 110)) (FNum 0) \<and>
   fst (manageForexWallet (Some 1) None (Some (FNum (- 110))) NoFault aliceState) = Success \<and>
   balance (user aliceState) = FNum 1000 \<and>
   balance (user (snd (manageForexWallet (Some 1) None (Some (FNum (- 110))) NoFault
       aliceState))) = FNum 1110 \<and>
   eur (currencies (user aliceState)) = FNum 0 \<and>
   eur (currencies (user (snd (manageForexWallet (Some 1) None (Some (FNum (- 110))) NoFault
       aliceState)))) = FNum (- 100)"
  by (simp add: manageForexWallet_def user_aliceState rates_aliceState aliceAccount_def
        fle_def negative_convert_arith Let_def del: float_ops)

text \<open>
  Claim C8, as stated, fails. Alice converts \<open>566\<close> of her \<open>1000\<close> dollars to EUR and
  is credited \<open>566 / 1.1\<close>, rounded to \<open>8430313 / 16384\<close>; converting exactly these
  units back at the same rate gives \<open>9273345 / 16384\<close> dollars, and the balance ends at
  \<open>1000 + 1 / 16384\<close>.
\<close>

theorem forex_roundtrip_inexact:
  "balance (user aliceState) = FNum 1000 \<and>
   \<not> flt (balance (user aliceState)) (FNum 566) \<and>
   exchangeRates eurState = exchangeRates aliceState \<and>
   fdiv (FNum 566) (eur (exchangeRates aliceState)) = FNum (8430313 / 16384) \<and>
   eur (currencies (user eurState)) = FNum (8430313 / 16384) \<and>
   fst (manageForexWallet (Some 4) (Some 1) (Some (FNum (8430313 / 16384))) NoFault eurState)
     = Success \<and>
   balance (user (snd (manageForexWallet (Some 4) (Some 1) (Some (FNum (8430313 / 16384)))
       NoFault eurState))) = FNum (16384001 / 16384) \<and>
   FNum (16384001 / 16384) \<noteq> FNum 1000"
  by (simp add: manageForexWallet_def user_eurState rates_eurState rates_aliceState
        user_aliceState aliceAccount_def fle_def roundtrip_arith Let_def del: float_ops)

text \<open>
  Claim C8, amended. Converting an amount \<open>a\<close> within the balance \<open>b\<close> to EUR and then
  the credited units \<open>u = a / rate\<close> back (accepted when \<open>u\<close> does not exceed the
  holdings after the credit), at the same rate, succeeds and leaves the cash balance at
  \<open>(b - a) + (u \<times> rate)\<close> and the euro holdings at \<open>(h + u) - u\<close>, every operation
  rounded to single precision.
\<close>

theorem forex_roundtrip_balance:
  assumes within: "\<not> flt (balance (user st)) a"
    and accepted:
      "fle (fdiv a (eur (exchangeRates st)))
           (fadd (eur (currencies (user st))) (fdiv a (eur (exchangeRates st))))"
  shows
    "fst (manageForexWallet (Some 4) (Some 1) (Some (fdiv a (eur (exchangeRates st)))) io2
            (snd (manageForexWallet (Some 1) cur (Some a) io1 st))) = Success \<and>
     balance (user (snd
         (manageForexWallet (Some 4) (Some 1) (Some (fdiv a (eur (exchangeRates st)))) io2
            (snd (manageForexWallet (Some 1) cur (Some a) io1 st)))))
       = fadd (fsub (balance (user st)) a)
              (fmul (fdiv a (eur (exchangeRates st))) (eur (exchangeRates st))) \<and>
     eur (currencies (user (snd
         (manageForexWallet (Some 4) (Some 1) (Some (fdiv a (eur (exchangeRates st)))) io2
            (snd (manageForexWallet (Some 1) cur (Some a) io1 st))))))
       = fsub (fadd (eur (currencies (user st))) (fdiv a (eur (exchangeRates st))))
              (fdiv a (eur (exchangeRates st)))"
proof -
  let ?u = "fdiv a (eur (exchangeRates st))"
  let ?st1 = "snd (manageForexWallet (Some 1) cur (Some a) io1 st)"
  have st1: "?st1 = snd (saveAccounts io1
                (upd_user (currencies_update (eur_update (\<lambda>h. fadd h ?u)))
                  (upd_user (balance_update (\<lambda>b. fsub b a)) st)))"
    using within by (simp add: manageForexWallet_def Let_def)
  have user1: "user ?st1 =
      (user st)\<lparr>balance := fsub (balance (user st)) a,
                 currencies := (currencies (user st))
                   \<lparr>eur := fadd (eur (currencies (user st))) ?u\<rparr>\<rparr>"
    by (simp add: st1)
  have rates1: "exchangeRates ?st1 = exchangeRates st"
    by (simp add: st1)
  show ?thesis
    using accepted by (simp add: manageForexWallet_def [of "Some 4"] user1 rates1 Let_def)
qed

text \<open>
  The example of the specification, \<open>50\<close> dollars on a fresh account: here the balance
  is \<open>1000\<close> again.
\<close>

theorem forex_roundtrip_balance_witness:
  "\<not> flt (balance (user aliceState)) (FNum 50) \<and>
   fle (fdiv (FNum 50) (eur (exchangeRates aliceState)))
       (fadd (eur (currencies (user aliceState)))
             (fdiv (FNum 50) (eur (exchangeRates aliceState)))) \<and>
   balance (user aliceState) = FNum 1000 \<and>
   balance (user (snd
       (manageForexWallet (Some 4) (Some 1)
          (Some (fdiv (FNum 50) (eur (exchangeRates aliceState)))) NoFault
          (snd (manageForexWallet (Some 1) None (Some (FNum 50)) NoFault aliceState)))))
     = FNum 1000"
proof -
  have within: "\<not> flt (balance (user aliceState)) (FNum 50)"
    by (simp add: user_aliceState aliceAccount_def)
  have accepted:
    "fle (fdiv (FNum 50) (eur (exchangeRates aliceState)))
         (fadd (eur (currencies (user aliceState)))
               (fdiv (FNum 50) (eur (exchangeRates aliceState))))"
    by (simp add: user_aliceState aliceAccount_def rates_aliceState fle_def
          example_roundtrip_arith del: float_ops)
  have "fadd (fsub (balance (user aliceState)) (FNum 50))
          (fmul (fdiv (FNum 50) (eur (exchangeRates aliceState)))
                (eur (exchangeRates aliceState))) = FNum 1000"
    by (simp add: user_aliceState aliceAccount_def rates_aliceState
          example_roundtrip_arith del: float_ops)
  with forex_roundtrip_balance [OF within accepted, of NoFault None NoFault] within accepted
  show ?thesis
    by (simp add: user_aliceState aliceAccount_def del: float_ops)
qed


section \<open>Registration\<close>




text \<open>
  Claim C3, as stated, fails: the full registry is refused with \<open>ERROR_INVALID_INPUT\<close>,
  the code that a deposit of \<open>-1\<close> and an unreadable login also get. \<^verbatim>\<open>ErrorCode\<close>
  has no code for the capacity.
\<close>

theorem createAccount_full_not_distinct:
  "accountCount fullState = MAX_ACCOUNTS \<and>
   createAccount [Some ''Zed''] [Some 9999] NoFault fullState
     = Some (ERROR_INVALID_INPUT, fullState) \<and>
   fst (depositCash (FNum (- 1)) NoFault aliceState) = ERROR_INVALID_INPUT \<and>
   fst (loginAccount None None fullState) = ERROR_INVALID_INPUT"
  by (simp add: fullState_count createAccount_def MAX_ACCOUNTS_def depositCash_def fle_def
        loginAccount_def)

text \<open>
  Claim C3, amended. With \<open>MAX_ACCOUNTS = 100\<close> accounts or more in the registry,
  \<^verbatim>\<open>createAccount\<close> fails with \<open>ERROR_INVALID_INPUT\<close>, before asking for anything,
  and returns the state it was given: registry and data file are unchanged.
\<close>

theorem createAccount_full:
  "MAX_ACCOUNTS = 100 \<and>
   (MAX_ACCOUNTS \<le> accountCount st \<longrightarrow>
      createAccount names pins io st = Some (ERROR_INVALID_INPUT, st))"
  by (simp add: createAccount_def MAX_ACCOUNTS_def)

text \<open>The full registry, with no input at all and a disk that cannot be opened.\<close>

theorem createAccount_full_witness:
  "MAX_ACCOUNTS \<le> accountCount fullState \<and>
   createAccount [] [] OpenFault fullState = Some (ERROR_INVALID_INPUT, fullState)"
  using createAccount_full [of fullState "[]" "[]" OpenFault]
  by (simp add: fullState_count)


section \<open>Saving and loading\<close>

text \<open>
  Claim C9. For a registry of \<open>N\<close> accounts, \<open>0 \<le> N \<le> 100\<close>, \<^verbatim>\<open>saveAccounts\<close> on a
  working disk succeeds, and \<^verbatim>\<open>loadAccounts\<close> in any program state that finds the
  file so written (the same run or a later one) succeeds, sets the count to \<open>N\<close> and
  makes each of the slots \<open>0 \<dots> N - 1\<close> equal, field by field, to the account saved.
  With \<open>N = 0\<close> the loaded registry is empty.
\<close>

theorem save_then_load:
  assumes "0 \<le> accountCount st" and "accountCount st \<le> MAX_ACCOUNTS"
  shows "fst (saveAccounts NoFault st) = SUCCESS \<and>
         (\<forall>mem. dataFile mem = dataFile (snd (saveAccounts NoFault st)) \<longrightarrow>
            fst (loadAccounts mem) = SUCCESS \<and>
            accountCount (snd (loadAccounts mem)) = accountCount st \<and>
            (\<forall>i. 0 \<le> i \<and> i < accountCount st \<longrightarrow>
                 accounts (snd (loadAccounts mem)) i = accounts st i))"
  using assms(1)
  by (simp add: saveAccounts_def loadAccounts_def Let_def length_records nth_records)

text \<open>
  Alice and Bob are saved and loaded at the next start of the program; so is the empty
  registry of the first start.
\<close>

theorem save_then_load_witness:
  "0 \<le> accountCount aliceBobState \<and> accountCount aliceBobState \<le> MAX_ACCOUNTS \<and>
   fst (loadAccounts (initState\<lparr>dataFile :=
          dataFile (snd (saveAccounts NoFault aliceBobState))\<rparr>)) = SUCCESS \<and>
   accountCount (snd (loadAccounts (initState\<lparr>dataFile :=
          dataFile (snd (saveAccounts NoFault aliceBobState))\<rparr>))) = 2 \<and>
   accounts (snd (loadAccounts (initState\<lparr>dataFile :=
          dataFile (snd (saveAccounts NoFault aliceBobState))\<rparr>))) 0 = aliceAccount \<and>
   accounts (snd (loadAccounts (initState\<lparr>dataFile :=
          dataFile (snd (saveAccounts NoFault aliceBobState))\<rparr>))) 1 = bobAccount \<and>
   0 \<le> accountCount initState \<and> accountCount initState \<le> MAX_ACCOUNTS \<and>
   accountCount (snd (loadAccounts (initState\<lparr>dataFile :=
          dataFile (snd (saveAccounts NoFault initState))\<rparr>))) = 0"
proof -
  let ?mem = "initState\<lparr>dataFile := dataFile (snd (saveAccounts NoFault aliceBobState))\<rparr>"
  let ?empty = "initState\<lparr>dataFile := dataFile (snd (saveAccounts NoFault initState))\<rparr>"
  have two: "0 \<le> accountCount aliceBobState" "accountCount aliceBobState \<le> MAX_ACCOUNTS"
    by (simp_all add: aliceBobState_closed MAX_ACCOUNTS_def)
  have none: "0 \<le> accountCount initState" "accountCount initState \<le> MAX_ACCOUNTS"
    by (simp_all add: initState_def MAX_ACCOUNTS_def)
  have "fst (loadAccounts ?mem) = SUCCESS \<and>
        accountCount (snd (loadAccounts ?mem)) = accountCount aliceBobState \<and>
        (\<forall>i. 0 \<le> i \<and> i < accountCount aliceBobState \<longrightarrow>
             accounts (snd (loadAccounts ?mem)) i = accounts aliceBobState i)"
    using save_then_load [OF two] by simp
  then have loaded: "fst (loadAccounts ?mem) = SUCCESS"
    "accountCount (snd (loadAccounts ?mem)) = 2"
    "accounts (snd (loadAccounts ?mem)) 0 = aliceAccount"
    "accounts (snd (loadAccounts ?mem)) 1 = bobAccount"
    by (simp_all add: aliceBobState_closed)
  have "accountCount (snd (loadAccounts ?empty)) = accountCount initState"
    using save_then_load [OF none] by simp
  then have "accountCount (snd (loadAccounts ?empty)) = 0"
    by (simp add: initState_def)
  with two none loaded show ?thesis
    by simp
qed


section \<open>What an operation may touch\<close>

text \<open>
  Claim C10. Whatever the menu entry (cash transaction, asset purchase, loan, interest,
  currency wallet), the answers typed and the behaviour of the disk, every account
  other than the current user's is unchanged, the current user's name and PIN are
  unchanged, and so are the index of the current user and the account count.
\<close>

theorem userMenu_frame:
  "(\<forall>i. i \<noteq> currentUserIndex st \<longrightarrow> accounts (snd (userMenu rq io st)) i = accounts st i) \<and>
   name (user (snd (userMenu rq io st))) = name (user st) \<and>
   pin (user (snd (userMenu rq io st))) = pin (user st) \<and>
   currentUserIndex (snd (userMenu rq io st)) = currentUserIndex st \<and>
   accountCount (snd (userMenu rq io st)) = accountCount st"
  by (cases rq)
     (simp_all add: processCashTransaction_def shown_def depositCash_def withdrawCash_def
        purchaseAsset_def manageLoan_def addInterest_def manageForexWallet_def Let_def
        split: option.split)

text \<open>Alice deposits \<open>50\<close>: Bob's account is untouched, Alice keeps name and PIN.\<close>

theorem userMenu_frame_witness:
  "1 \<noteq> currentUserIndex aliceBobState \<and>
   accounts aliceBobState 1 = bobAccount \<and>
   accounts (snd (userMenu (CashTransaction (Some 1) (Some (FNum 50)) None) NoFault
       aliceBobState)) 1 = bobAccount \<and>
   name (user (snd (userMenu (CashTransaction (Some 1) (Some (FNum 50)) None) NoFault
       aliceBobState))) = ''Alice'' \<and>
   pin (user (snd (userMenu (CashTransaction (Some 1) (Some (FNum 50)) None) NoFault
       aliceBobState))) = 1234 \<and>
   balance (user (snd (userMenu (CashTransaction (Some 1) (Some (FNum 50)) None) NoFault
       aliceBobState))) = FNum 1050"
proof -
  let ?rq = "CashTransaction (Some 1) (Some (FNum 50)) None"
  have other: "1 \<noteq> currentUserIndex aliceBobState" "accounts aliceBobState 1 = bobAccount"
    and me: "user aliceBobState = aliceAccount"
    by (simp_all add: aliceBobState_closed user_def)
  have paid: "balance (user (snd (userMenu ?rq NoFault aliceBobState))) = FNum 1050"
    by (simp add: processCashTransaction_def shown_def depositCash_def fle_def me
          aliceAccount_def deposit_arith del: float_ops)
  from userMenu_frame [of aliceBobState ?rq NoFault] other me paid show ?thesis
    by (simp add: aliceAccount_def)
qed

end
